theory Spec2Isabelle
  imports Main "HOL-Library.Word"
begin

section \<open>The native structures of \<open>ffio.py\<close>\<close>

text \<open>
  \<open>ffio.py\<close> is a ctypes wrapper: the class \<open>FFIO\<close> keeps a pointer to a native
  \<open>CFFIO\<close> structure and forwards every operation to the shared library bound to
  \<open>c_lib\<close>. A \<open>c_int\<close> field is a 32-bit word that Python reads as a signed integer
  (\<open>sint\<close>); Python's own integers (\<open>frame_seq_py\<close>, \<open>width\<close>, \<open>height\<close>) are
  unbounded and are modelled by \<open>int\<close>.
\<close>

type_synonym c_int = "32 word"
type_synonym bytes = "8 word list"

record CFFIO =
  ffio_state :: c_int
  ffio_mode :: c_int
  frame_seq :: c_int
  hw_enabled :: bool
  shm_enabled :: bool
  shm_fd :: c_int
  shm_size :: c_int
  video_stream_index :: c_int
  image_width :: c_int
  image_height :: c_int
  image_byte_size :: c_int

record CCodecParams =
  width :: c_int
  height :: c_int
  bitrate :: c_int
  fps :: c_int
  gop :: c_int
  b_frames :: c_int
  profile :: bytes
  preset :: bytes
  tune :: bytes
  pix_fmt :: bytes
  format :: bytes

text \<open>\<open>CCodecParams()\<close>: ctypes zero-initialises a structure built without arguments.\<close>

definition CCodecParams_default :: CCodecParams where
  "CCodecParams_default =
     \<lparr>width = 0, height = 0, bitrate = 0, fps = 0, gop = 0, b_frames = 0,
      profile = [], preset = [], tune = [], pix_fmt = [], format = []\<rparr>"

section \<open>Python values and exceptions\<close>

text \<open>
  The values that cross the wrapper's interface. \<open>type(x) is bytes\<close> holds for
  \<open>PyBytes\<close> only and \<open>type(x) is int\<close> for \<open>PyInt\<close> only (a Python \<open>bool\<close> is not of
  type \<open>int\<close> under \<open>is\<close>); \<open>PyOther\<close> stands for an object of any other type. The
  types of numpy arrays and of PIL images are parameters: the wrapper only passes
  such objects between library calls.
\<close>

datatype ('arr, 'img) py_object =
    PyBytes bytes
  | PyInt int
  | PyStr string
  | PyNDArray 'arr
  | PyImage 'img
  | PyNone
  | PyOther

datatype py_error = AttributeError string | ValueError | Cv2Error | UnicodeDecodeError

datatype color_code = COLOR_RGB2BGR

section \<open>The external collaborators\<close>

text \<open>
  The entry points of \<open>libinterfaceAPI.so\<close> as \<open>ffio.py\<close> declares them (\<open>argtypes\<close>
  and \<open>restype\<close>). The library itself is not part of the wrapper, so it is a
  parameter: \<open>'n\<close> is the native state behind the pointer (the structure and
  whatever the library keeps with it), \<open>contents\<close> reads the structure through
  the pointer. \<open>api_initFFIO\<close> receives the codec parameters by reference and may
  write them, so it returns them.
\<close>

record ('n, 'arr, 'img) gateway =
  api_newFFIO :: "'n"
  api_initFFIO :: "'n \<Rightarrow> c_int \<Rightarrow> bytes \<Rightarrow> bool \<Rightarrow> bytes \<Rightarrow> bool \<Rightarrow> bytes \<Rightarrow> c_int \<Rightarrow> c_int
                     \<Rightarrow> CCodecParams \<Rightarrow> 'n \<times> CCodecParams"
  api_finalizeFFIO :: "'n \<Rightarrow> 'n"
  api_deleteFFIO :: "'n \<Rightarrow> 'n"
  api_decodeOneFrame :: "'n \<Rightarrow> ('arr, 'img) py_object \<times> 'n"
  api_decodeOneFrameToShm :: "'n \<Rightarrow> c_int \<Rightarrow> bool \<times> 'n"
  api_encodeOneFrame :: "'n \<Rightarrow> ('arr, 'img) py_object \<Rightarrow> c_int \<times> 'n"
  api_encodeOneFrameFromShm :: "'n \<Rightarrow> c_int \<Rightarrow> bool \<times> 'n"
  contents :: "'n \<Rightarrow> CFFIO"

text \<open>
  The calls into numpy, PIL, OpenCV and \<open>base64\<close> that the wrapper makes. Each one
  that can raise returns a sum.
\<close>

record ('arr, 'img) libs =
  np_frombuffer :: "bytes \<Rightarrow> 'arr"
  np_reshape :: "'arr \<Rightarrow> int \<times> int \<times> int \<Rightarrow> py_error + 'arr"
  Image_frombytes :: "string \<Rightarrow> int \<times> int \<Rightarrow> bytes \<Rightarrow> py_error + 'img"
  cv2_cvtColor :: "'arr \<Rightarrow> color_code \<Rightarrow> py_error + 'arr"
  cv2_imencode :: "string \<Rightarrow> 'arr \<Rightarrow> py_error + (bool \<times> 'arr)"
  b64encode :: "'arr \<Rightarrow> bytes"
  bytes_decode :: "bytes \<Rightarrow> py_error + string"
  tobytes :: "'arr \<Rightarrow> bytes"

section \<open>The class \<open>FFIO\<close>\<close>

text \<open>The entry points of the library, for the log of calls a session has made.\<close>

datatype api_call =
    NewFFIO | InitFFIO | FinalizeFFIO | DeleteFFIO
  | DecodeOneFrame | DecodeOneFrameToShm | EncodeOneFrame | EncodeOneFrameFromShm

text \<open>
  The instance attributes. \<open>c_ffio_ptr\<close> is \<open>_c_ffio_ptr\<close>: the native state the
  pointer designates. \<open>width\<close> and \<open>height\<close> are assigned only on some paths of
  \<open>__init__\<close>; \<open>None\<close> is an attribute that was never assigned (reading it raises
  \<open>AttributeError\<close>). \<open>calls\<close> is not an attribute: it records, in order, the
  entry points of \<open>c_lib\<close> that the session has invoked.
\<close>

record 'n FFIO =
  c_ffio_ptr :: 'n
  target_url :: string
  mode :: int
  frame_seq_py :: int
  shm_enabled :: bool
  width :: "int option"
  height :: "int option"
  codec_params :: CCodecParams
  calls :: "api_call list"

text \<open>\<open>str.encode()\<close>; a \<open>string\<close> already holds the bytes of the text.\<close>

definition str_encode :: "string \<Rightarrow> bytes" where
  "str_encode s = map of_char s"

text \<open>
  \<open>FFIO.__init__\<close>. The timing and the two \<open>print\<close> calls have no effect on the
  session and are left out. ctypes converts a Python integer passed for a \<open>c_int\<close>
  parameter by truncation (\<open>word_of_int\<close>).
\<close>

definition FFIO_init ::
  "('n, 'arr, 'img) gateway \<Rightarrow> string \<Rightarrow> int \<Rightarrow> bool \<Rightarrow> string option \<Rightarrow> int \<Rightarrow> int
     \<Rightarrow> CCodecParams option \<Rightarrow> 'n FFIO" where
  "FFIO_init c_lib url m hw shm_name shm_sz shm_offset cp =
     (let cp0 = (case cp of None \<Rightarrow> CCodecParams_default | Some c \<Rightarrow> c);
          p0 = api_newFFIO c_lib;
          (p1, cp1) =
            (case shm_name of
               None \<Rightarrow>
                 api_initFFIO c_lib p0 (word_of_int m) (str_encode url)
                   hw (str_encode ''cuda'')
                   False (str_encode '''') 0 0 cp0
             | Some name \<Rightarrow>
                 api_initFFIO c_lib p0 (word_of_int m) (str_encode url)
                   hw (str_encode ''cuda'')
                   True (str_encode name) (word_of_int shm_sz) (word_of_int shm_offset) cp0);
          self = \<lparr>c_ffio_ptr = p1, target_url = url, mode = m, frame_seq_py = 0,
                  shm_enabled = (shm_name \<noteq> None), width = None, height = None,
                  codec_params = cp1, calls = [NewFFIO, InitFFIO]\<rparr>
      in if sint (ffio_state (contents c_lib p1)) = 1
         then self\<lparr>width := Some (sint (image_width (contents c_lib p1))),
                   height := Some (sint (image_height (contents c_lib p1)))\<rparr>
         else self\<lparr>c_ffio_ptr := api_deleteFFIO c_lib p1,
                   calls := calls self @ [DeleteFFIO]\<rparr>)"

text \<open>The property \<open>ffio_state\<close>.\<close>

definition FFIO_ffio_state :: "('n, 'arr, 'img) gateway \<Rightarrow> 'n FFIO \<Rightarrow> bool" where
  "FFIO_ffio_state c_lib self =
     (let state = sint (ffio_state (contents c_lib (c_ffio_ptr self)))
      in if state = 1 \<or> state = 2 then True else False)"

text \<open>The property \<open>frame_seq_c\<close>.\<close>

definition frame_seq_c :: "('n, 'arr, 'img) gateway \<Rightarrow> 'n FFIO \<Rightarrow> int" where
  "frame_seq_c c_lib self = sint (frame_seq (contents c_lib (c_ffio_ptr self)))"

text \<open>Sequencing of calls that may raise: the first exception ends the method.\<close>

definition bind_err :: "'e + 'a \<Rightarrow> ('a \<Rightarrow> 'e + 'b) \<Rightarrow> 'e + 'b" where
  "bind_err r f = (case r of Inl e \<Rightarrow> Inl e | Inr v \<Rightarrow> f v)"

text \<open>Reading an attribute that may be unassigned.\<close>

definition getattr :: "string \<Rightarrow> 'a option \<Rightarrow> py_error + 'a" where
  "getattr name a = (case a of None \<Rightarrow> Inl (AttributeError name) | Some v \<Rightarrow> Inr v)"

text \<open>
  \<open>FFIO.decode_one_frame\<close>. The result is the returned object or the exception
  raised, together with the session as the call leaves it: the increment of
  \<open>frame_seq_py\<close> precedes the conversions, so it stays when one of them raises.
  The tuple \<open>(self.height, self.width, 3)\<close> reads \<open>height\<close> first, the tuple
  \<open>(self.width, self.height)\<close> reads \<open>width\<close> first.
\<close>

definition decode_one_frame ::
  "('n, 'arr, 'img) gateway \<Rightarrow> ('arr, 'img) libs \<Rightarrow> 'n FFIO \<Rightarrow> string option
     \<Rightarrow> (py_error + ('arr, 'img) py_object) \<times> 'n FFIO" where
  "decode_one_frame c_lib L self image_format =
     (let (ret, p) = api_decodeOneFrame c_lib (c_ffio_ptr self);
          self1 = self\<lparr>c_ffio_ptr := p, calls := calls self @ [DecodeOneFrame]\<rparr>
      in case ret of
           PyBytes b \<Rightarrow>
             (let self2 = self1\<lparr>frame_seq_py := frame_seq_py self1 + 1\<rparr>
              in if image_format = None then (Inr (PyBytes b), self2)
                 else if image_format = Some ''numpy'' then
                   (bind_err (getattr ''height'' (height self2)) (\<lambda>h.
                    bind_err (getattr ''width'' (width self2)) (\<lambda>w.
                    bind_err (np_reshape L (np_frombuffer L b) (h, w, 3)) (\<lambda>np_frame.
                    Inr (PyNDArray np_frame)))), self2)
                 else if image_format = Some ''Image'' then
                   (bind_err (getattr ''width'' (width self2)) (\<lambda>w.
                    bind_err (getattr ''height'' (height self2)) (\<lambda>h.
                    bind_err (Image_frombytes L ''RGB'' (w, h) b) (\<lambda>rgb_image.
                    Inr (PyImage rgb_image)))), self2)
                 else if image_format = Some ''base64'' then
                   (bind_err (getattr ''height'' (height self2)) (\<lambda>h.
                    bind_err (getattr ''width'' (width self2)) (\<lambda>w.
                    bind_err (np_reshape L (np_frombuffer L b) (h, w, 3)) (\<lambda>np_frame.
                    bind_err (cv2_cvtColor L np_frame COLOR_RGB2BGR) (\<lambda>bgr_image.
                    bind_err (cv2_imencode L ''.jpg'' bgr_image) (\<lambda>enc.
                    bind_err (bytes_decode L (b64encode L (snd enc))) (\<lambda>base64_image_code.
                    Inr (PyStr base64_image_code))))))), self2)
                 else (Inr PyNone, self2))
         | PyInt r \<Rightarrow>
             (if r = - 5 then (Inr (PyInt (- 5)), self1)
              else if r = - 4 then (Inr (PyInt (- 4)), self1)
              else (Inr (PyInt 1), self1))
         | _ \<Rightarrow> (Inr PyNone, self1))"

text \<open>\<open>FFIO.decode_one_frame_to_shm\<close>: the library's answer, and nothing else.\<close>

definition decode_one_frame_to_shm ::
  "('n, 'arr, 'img) gateway \<Rightarrow> 'n FFIO \<Rightarrow> int \<Rightarrow> bool \<times> 'n FFIO" where
  "decode_one_frame_to_shm c_lib self offset =
     (let (ret, p) = api_decodeOneFrameToShm c_lib (c_ffio_ptr self) (word_of_int offset)
      in (ret, self\<lparr>c_ffio_ptr := p, calls := calls self @ [DecodeOneFrameToShm]\<rparr>))"

text \<open>
  \<open>FFIO.encode_one_frame\<close>. The array case serialises and calls the method again
  with the bytes. The third test compares the type with the module \<open>PIL.Image\<close>,
  and both it and the fall-through return \<open>False\<close>.
\<close>

function (sequential) encode_one_frame ::
  "('n, 'arr, 'img) gateway \<Rightarrow> ('arr, 'img) libs \<Rightarrow> 'n FFIO \<Rightarrow> ('arr, 'img) py_object
     \<Rightarrow> bool \<times> 'n FFIO" where
  "encode_one_frame c_lib L self (PyBytes b) =
     (let (ret, p) = api_encodeOneFrame c_lib (c_ffio_ptr self) (PyBytes b);
          self1 = self\<lparr>c_ffio_ptr := p, calls := calls self @ [EncodeOneFrame]\<rparr>
      in if sint ret = 0
         then (True, self1\<lparr>frame_seq_py := frame_seq_py self1 + 1\<rparr>)
         else (False, self1))"
| "encode_one_frame c_lib L self (PyNDArray a) =
     encode_one_frame c_lib L self (PyBytes (tobytes L a))"
| "encode_one_frame c_lib L self _ = (False, self)"
  by pat_completeness auto
termination
  by (relation "measure (\<lambda>(c_lib, L, self, rgb_image).
        case rgb_image of PyNDArray a \<Rightarrow> 1 | _ \<Rightarrow> 0)") auto

text \<open>\<open>FFIO.encode_one_frame_from_shm\<close>.\<close>

definition encode_one_frame_from_shm ::
  "('n, 'arr, 'img) gateway \<Rightarrow> 'n FFIO \<Rightarrow> int \<Rightarrow> bool \<times> 'n FFIO" where
  "encode_one_frame_from_shm c_lib self offset =
     (let (ret, p) = api_encodeOneFrameFromShm c_lib (c_ffio_ptr self) (word_of_int offset)
      in (ret, self\<lparr>c_ffio_ptr := p, calls := calls self @ [EncodeOneFrameFromShm]\<rparr>))"

text \<open>\<open>FFIO.release_memory\<close>.\<close>

definition release_memory :: "('n, 'arr, 'img) gateway \<Rightarrow> 'n FFIO \<Rightarrow> 'n FFIO" where
  "release_memory c_lib self =
     (let p1 = api_finalizeFFIO c_lib (c_ffio_ptr self);
          p2 = api_deleteFFIO c_lib p1
      in self\<lparr>c_ffio_ptr := p2, calls := calls self @ [FinalizeFFIO, DeleteFFIO],
              width := Some 0, height := Some 0, frame_seq_py := 0\<rparr>)"

section \<open>Concrete runs\<close>

text \<open>
  A small library and small stand-ins for numpy, PIL, OpenCV and \<open>base64\<close>, to run
  the wrapper on concrete inputs. The native state is the structure itself.
  \<open>run_gateway st dec enc\<close> leaves \<open>ffio_state = st\<close> after initialisation (with a
  2x1 picture when \<open>st = 1\<close>), answers every decode request with \<open>dec\<close> and every
  encode request with \<open>enc\<close>, and counts in \<open>frame_seq\<close> the frames it has
  delivered or accepted; its shared-memory entry points always succeed.
\<close>

definition CFFIO_zero :: CFFIO where
  "CFFIO_zero =
     \<lparr>ffio_state = 0, ffio_mode = 0, frame_seq = 0, hw_enabled = False,
      shm_enabled = False, shm_fd = 0, shm_size = 0, video_stream_index = 0,
      image_width = 0, image_height = 0, image_byte_size = 0\<rparr>"

type_synonym run_array = "int list \<times> bytes"
type_synonym run_image = "(int \<times> int) \<times> bytes"

definition run_gateway ::
  "c_int \<Rightarrow> (run_array, run_image) py_object \<Rightarrow> c_int
     \<Rightarrow> (CFFIO, run_array, run_image) gateway" where
  "run_gateway st dec enc =
     \<lparr>api_newFFIO = CFFIO_zero,
      api_initFFIO = (\<lambda>n m url hw hw_name shm shm_name sz off cp.
         (if st = 1
          then n\<lparr>ffio_state := st, ffio_mode := m, image_width := 2, image_height := 1,
                 image_byte_size := 6\<rparr>
          else n\<lparr>ffio_state := st, ffio_mode := m\<rparr>, cp)),
      api_finalizeFFIO = (\<lambda>n. n),
      api_deleteFFIO = (\<lambda>n. n),
      api_decodeOneFrame = (\<lambda>n.
         (dec, case dec of PyBytes b \<Rightarrow> n\<lparr>frame_seq := frame_seq n + 1\<rparr> | _ \<Rightarrow> n)),
      api_decodeOneFrameToShm = (\<lambda>n off. (True, n\<lparr>frame_seq := frame_seq n + 1\<rparr>)),
      api_encodeOneFrame = (\<lambda>n obj.
         (enc, if enc = 0 then n\<lparr>frame_seq := frame_seq n + 1\<rparr> else n)),
      api_encodeOneFrameFromShm = (\<lambda>n off. (True, n\<lparr>frame_seq := frame_seq n + 1\<rparr>)),
      contents = (\<lambda>n. n)\<rparr>"

text \<open>Exchange of the first and third byte of every pixel.\<close>

fun swap_channels :: "bytes \<Rightarrow> bytes" where
  "swap_channels (r # g # b # rest) = b # g # r # swap_channels rest"
| "swap_channels rest = rest"

text \<open>
  An array is its shape and its buffer; the stand-in for the JPEG encoder and the
  one for \<open>base64\<close> hand the buffer on unchanged.
\<close>

definition run_libs :: "(run_array, run_image) libs" where
  "run_libs =
     \<lparr>np_frombuffer = (\<lambda>b. ([int (length b)], b)),
      np_reshape = (\<lambda>a shape.
         case shape of (h, w, c) \<Rightarrow>
           if 0 \<le> h \<and> 0 \<le> w \<and> h * w * c = int (length (snd a))
           then Inr ([h, w, c], snd a) else Inl ValueError),
      Image_frombytes = (\<lambda>m sz b.
         case sz of (w, h) \<Rightarrow>
           if 0 \<le> w \<and> 0 \<le> h \<and> w * h * 3 = int (length b)
           then Inr ((w, h), b) else Inl ValueError),
      cv2_cvtColor = (\<lambda>a code.
         if snd a = [] then Inl Cv2Error else Inr (fst a, swap_channels (snd a))),
      cv2_imencode = (\<lambda>ext a.
         if snd a = [] then Inl Cv2Error else Inr (True, ([int (length (snd a))], snd a))),
      b64encode = snd,
      bytes_decode = (\<lambda>b. Inr (map (\<lambda>x. char_of (unat x)) b)),
      tobytes = snd\<rparr>"

text \<open>
  \<open>FFIO("a.mp4")\<close> on a library that initialises (\<open>ready\<close>) and on one that does
  not (\<open>failed\<close>).
\<close>

definition ready ::
  "(run_array, run_image) py_object \<Rightarrow> c_int \<Rightarrow> CFFIO FFIO" where
  "ready dec enc = FFIO_init (run_gateway 1 dec enc) ''a.mp4'' 0 False None 0 0 None"

definition failed ::
  "(run_array, run_image) py_object \<Rightarrow> c_int \<Rightarrow> CFFIO FFIO" where
  "failed dec enc = FFIO_init (run_gateway 0 dec enc) ''a.mp4'' 0 False None 0 0 None"

section \<open>Basic facts\<close>

lemma ready_eq:
  "ready dec enc =
     \<lparr>c_ffio_ptr = CFFIO_zero\<lparr>ffio_state := 1, ffio_mode := 0, image_width := 2,
                               image_height := 1, image_byte_size := 6\<rparr>,
      target_url = ''a.mp4'', mode = 0, frame_seq_py = 0, shm_enabled = False,
      width = Some 2, height = Some 1, codec_params = CCodecParams_default,
      calls = [NewFFIO, InitFFIO]\<rparr>"
  by (simp add: ready_def FFIO_init_def run_gateway_def CFFIO_zero_def)

lemma failed_eq:
  "failed dec enc =
     \<lparr>c_ffio_ptr = CFFIO_zero\<lparr>ffio_state := 0, ffio_mode := 0\<rparr>,
      target_url = ''a.mp4'', mode = 0, frame_seq_py = 0, shm_enabled = False,
      width = None, height = None, codec_params = CCodecParams_default,
      calls = [NewFFIO, InitFFIO, DeleteFFIO]\<rparr>"
  by (simp add: failed_def FFIO_init_def run_gateway_def CFFIO_zero_def)

lemma run_gateway_sel:
  "api_decodeOneFrame (run_gateway st dec enc) n =
     (dec, case dec of PyBytes b \<Rightarrow> n\<lparr>frame_seq := frame_seq n + 1\<rparr> | _ \<Rightarrow> n)"
  "api_encodeOneFrame (run_gateway st dec enc) n obj =
     (enc, if enc = 0 then n\<lparr>frame_seq := frame_seq n + 1\<rparr> else n)"
  "api_decodeOneFrameToShm (run_gateway st dec enc) n off =
     (True, n\<lparr>frame_seq := frame_seq n + 1\<rparr>)"
  "api_encodeOneFrameFromShm (run_gateway st dec enc) n off =
     (True, n\<lparr>frame_seq := frame_seq n + 1\<rparr>)"
  "api_finalizeFFIO (run_gateway st dec enc) n = n"
  "api_deleteFFIO (run_gateway st dec enc) n = n"
  "contents (run_gateway st dec enc) n = n"
  by (simp_all add: run_gateway_def)

lemma decode_one_frame_calls:
  "calls (snd (decode_one_frame c_lib L self image_format)) = calls self @ [DecodeOneFrame]"
  by (cases "api_decodeOneFrame c_lib (c_ffio_ptr self)")
    (simp add: decode_one_frame_def Let_def split: py_object.split)

lemma decode_one_frame_int:
  assumes "fst (api_decodeOneFrame c_lib (c_ffio_ptr self)) = PyInt r"
  shows "fst (decode_one_frame c_lib L self image_format) =
           Inr (PyInt (if r = - 5 then - 5 else if r = - 4 then - 4 else 1))"
    and "frame_seq_py (snd (decode_one_frame c_lib L self image_format)) = frame_seq_py self"
proof -
  obtain p where "api_decodeOneFrame c_lib (c_ffio_ptr self) = (PyInt r, p)"
    using assms by (cases "api_decodeOneFrame c_lib (c_ffio_ptr self)") simp
  then show "fst (decode_one_frame c_lib L self image_format) =
           Inr (PyInt (if r = - 5 then - 5 else if r = - 4 then - 4 else 1))"
    and "frame_seq_py (snd (decode_one_frame c_lib L self image_format)) = frame_seq_py self"
    by (simp_all add: decode_one_frame_def Let_def)
qed

lemma decode_one_frame_bytes:
  assumes "fst (api_decodeOneFrame c_lib (c_ffio_ptr self)) = PyBytes b"
  shows "decode_one_frame c_lib L self image_format =
     (let self2 = self\<lparr>c_ffio_ptr := snd (api_decodeOneFrame c_lib (c_ffio_ptr self)),
                        calls := calls self @ [DecodeOneFrame],
                        frame_seq_py := frame_seq_py self + 1\<rparr>
      in (if image_format = None then Inr (PyBytes b)
          else if image_format = Some ''numpy'' then
            bind_err (getattr ''height'' (height self)) (\<lambda>h.
            bind_err (getattr ''width'' (width self)) (\<lambda>w.
            bind_err (np_reshape L (np_frombuffer L b) (h, w, 3)) (\<lambda>np_frame.
            Inr (PyNDArray np_frame))))
          else if image_format = Some ''Image'' then
            bind_err (getattr ''width'' (width self)) (\<lambda>w.
            bind_err (getattr ''height'' (height self)) (\<lambda>h.
            bind_err (Image_frombytes L ''RGB'' (w, h) b) (\<lambda>rgb_image.
            Inr (PyImage rgb_image))))
          else if image_format = Some ''base64'' then
            bind_err (getattr ''height'' (height self)) (\<lambda>h.
            bind_err (getattr ''width'' (width self)) (\<lambda>w.
            bind_err (np_reshape L (np_frombuffer L b) (h, w, 3)) (\<lambda>np_frame.
            bind_err (cv2_cvtColor L np_frame COLOR_RGB2BGR) (\<lambda>bgr_image.
            bind_err (cv2_imencode L ''.jpg'' bgr_image) (\<lambda>enc.
            bind_err (bytes_decode L (b64encode L (snd enc))) (\<lambda>base64_image_code.
            Inr (PyStr base64_image_code)))))))
          else Inr PyNone, self2))"
proof -
  obtain p where "api_decodeOneFrame c_lib (c_ffio_ptr self) = (PyBytes b, p)"
    using assms by (cases "api_decodeOneFrame c_lib (c_ffio_ptr self)") simp
  then show ?thesis
    by (simp add: decode_one_frame_def Let_def)
qed

lemma decode_one_frame_bytes_seq:
  assumes "fst (api_decodeOneFrame c_lib (c_ffio_ptr self)) = PyBytes b"
  shows "frame_seq_py (snd (decode_one_frame c_lib L self image_format)) = frame_seq_py self + 1"
  by (simp add: decode_one_frame_bytes [OF assms] Let_def)

lemma encode_one_frame_bytes_eq:
  "encode_one_frame c_lib L self (PyBytes b) =
     (sint (fst (api_encodeOneFrame c_lib (c_ffio_ptr self) (PyBytes b))) = 0,
      self\<lparr>c_ffio_ptr := snd (api_encodeOneFrame c_lib (c_ffio_ptr self) (PyBytes b)),
            calls := calls self @ [EncodeOneFrame],
            frame_seq_py :=
              (if sint (fst (api_encodeOneFrame c_lib (c_ffio_ptr self) (PyBytes b))) = 0
               then frame_seq_py self + 1 else frame_seq_py self)\<rparr>)"
  by (cases "api_encodeOneFrame c_lib (c_ffio_ptr self) (PyBytes b)") simp

declare encode_one_frame.simps(1) [simp del]

lemma shm_variants_frame_seq_py:
  "frame_seq_py (snd (decode_one_frame_to_shm c_lib self offset)) = frame_seq_py self"
  "frame_seq_py (snd (encode_one_frame_from_shm c_lib self offset)) = frame_seq_py self"
  by (simp_all add: decode_one_frame_to_shm_def encode_one_frame_from_shm_def
      case_prod_beta)

text \<open>
  On the path that returns the frame, the two counters stay equal whenever the
  library counts the frame it delivers.
\<close>

lemma decode_one_frame_keeps_counters:
  assumes "frame_seq_py self = frame_seq_c c_lib self"
    and "api_decodeOneFrame c_lib (c_ffio_ptr self) = (PyBytes b, p)"
    and "sint (frame_seq (contents c_lib p)) =
           sint (frame_seq (contents c_lib (c_ffio_ptr self))) + 1"
  shows "frame_seq_py (snd (decode_one_frame c_lib L self image_format)) =
           frame_seq_c c_lib (snd (decode_one_frame c_lib L self image_format))"
proof -
  have "fst (api_decodeOneFrame c_lib (c_ffio_ptr self)) = PyBytes b"
    using assms(2) by simp
  from decode_one_frame_bytes [OF this] assms show ?thesis
    by (simp add: Let_def frame_seq_c_def)
qed

section \<open>The frame counters\<close>

text \<open>
  C1. After a successful operation the local counter \<open>frame_seq_py\<close> should equal
  the native counter \<open>frame_seq_c\<close>, also for the shared-memory variants, and after
  N successful calls it should be N. The run below is the first successful
  \<open>decode_one_frame_to_shm(0)\<close> and the first successful
  \<open>encode_one_frame_from_shm(0)\<close> of a fresh ready session: both return \<open>True\<close>,
  the library has counted one frame, and \<open>frame_seq_py\<close> is still 0. On the same
  library \<open>decode_one_frame\<close> and \<open>encode_one_frame\<close> leave both counters at 1.
\<close>

theorem shm_variants_skip_local_counter:
  "fst (decode_one_frame_to_shm (run_gateway 1 PyNone 0) (ready PyNone 0) 0) = True
   \<and> frame_seq_py (snd (decode_one_frame_to_shm (run_gateway 1 PyNone 0) (ready PyNone 0) 0)) = 0
   \<and> frame_seq_c (run_gateway 1 PyNone 0)
        (snd (decode_one_frame_to_shm (run_gateway 1 PyNone 0) (ready PyNone 0) 0)) = 1
   \<and> fst (encode_one_frame_from_shm (run_gateway 1 PyNone 0) (ready PyNone 0) 0) = True
   \<and> frame_seq_py (snd (encode_one_frame_from_shm (run_gateway 1 PyNone 0) (ready PyNone 0) 0)) = 0
   \<and> frame_seq_c (run_gateway 1 PyNone 0)
        (snd (encode_one_frame_from_shm (run_gateway 1 PyNone 0) (ready PyNone 0) 0)) = 1
   \<and> frame_seq_py (snd (decode_one_frame (run_gateway 1 (PyBytes [1, 2, 3, 4, 5, 6]) 0) run_libs
        (ready (PyBytes [1, 2, 3, 4, 5, 6]) 0) None)) = 1
   \<and> frame_seq_c (run_gateway 1 (PyBytes [1, 2, 3, 4, 5, 6]) 0)
        (snd (decode_one_frame (run_gateway 1 (PyBytes [1, 2, 3, 4, 5, 6]) 0) run_libs
          (ready (PyBytes [1, 2, 3, 4, 5, 6]) 0) None)) = 1
   \<and> frame_seq_py (snd (encode_one_frame (run_gateway 1 PyNone 0) run_libs
        (ready PyNone 0) (PyBytes [1, 2, 3, 4, 5, 6]))) = 1
   \<and> frame_seq_c (run_gateway 1 PyNone 0)
        (snd (encode_one_frame (run_gateway 1 PyNone 0) run_libs
          (ready PyNone 0) (PyBytes [1, 2, 3, 4, 5, 6]))) = 1"
  by (simp add: decode_one_frame_to_shm_def encode_one_frame_from_shm_def
      decode_one_frame_def encode_one_frame_bytes_eq frame_seq_c_def run_gateway_sel
      ready_eq CFFIO_zero_def)

section \<open>Readiness\<close>

text \<open>
  C2, as the specification states it: on a session whose native state is neither
  1 nor 2, \<open>decode_one_frame\<close> and \<open>encode_one_frame\<close> fail with \<open>NotReady\<close> without
  calling the library. The session below failed to initialise (state 0); both
  methods call the library all the same and return what it answers.
\<close>

theorem not_ready_calls_gateway_counterexample:
  "\<not> FFIO_ffio_state (run_gateway 0 (PyBytes [1, 2, 3, 4, 5, 6]) 0)
        (failed (PyBytes [1, 2, 3, 4, 5, 6]) 0)
   \<and> decode_one_frame (run_gateway 0 (PyBytes [1, 2, 3, 4, 5, 6]) 0) run_libs
        (failed (PyBytes [1, 2, 3, 4, 5, 6]) 0) None =
       (Inr (PyBytes [1, 2, 3, 4, 5, 6]),
        (failed (PyBytes [1, 2, 3, 4, 5, 6]) 0)
          \<lparr>c_ffio_ptr := CFFIO_zero\<lparr>frame_seq := 1\<rparr>,
           calls := [NewFFIO, InitFFIO, DeleteFFIO, DecodeOneFrame],
           frame_seq_py := 1\<rparr>)
   \<and> encode_one_frame (run_gateway 0 (PyBytes [1, 2, 3, 4, 5, 6]) 0) run_libs
        (failed (PyBytes [1, 2, 3, 4, 5, 6]) 0) (PyBytes [1, 2, 3, 4, 5, 6]) =
       (True,
        (failed (PyBytes [1, 2, 3, 4, 5, 6]) 0)
          \<lparr>c_ffio_ptr := CFFIO_zero\<lparr>frame_seq := 1\<rparr>,
           calls := [NewFFIO, InitFFIO, DeleteFFIO, EncodeOneFrame],
           frame_seq_py := 1\<rparr>)"
  by (simp add: FFIO_ffio_state_def decode_one_frame_def encode_one_frame_bytes_eq
      run_gateway_sel failed_eq CFFIO_zero_def)

text \<open>
  C2, amended: the wrapper makes no readiness check. Also when the native state
  is neither 1 nor 2, \<open>decode_one_frame\<close> (with any format) and \<open>encode_one_frame\<close>
  on bytes or on an array call the library exactly once and return according to
  its answer: the decode with format \<open>None\<close> returns the frame, -5, -4, 1 or
  \<open>None\<close>; the encode returns whether the code is 0, an array being serialised
  with \<open>tobytes()\<close> first. \<open>encode_one_frame\<close> on any other input returns \<open>False\<close>
  without calling the library, as it does in every state. No call fails with a
  \<open>NotReady\<close> error.
\<close>

theorem not_ready_still_calls_gateway:
  assumes "\<not> FFIO_ffio_state c_lib self"
  shows "calls (snd (decode_one_frame c_lib L self image_format)) =
           calls self @ [DecodeOneFrame]
       \<and> fst (decode_one_frame c_lib L self None) =
           Inr (case fst (api_decodeOneFrame c_lib (c_ffio_ptr self)) of
                  PyBytes b \<Rightarrow> PyBytes b
                | PyInt r \<Rightarrow> PyInt (if r = - 5 then - 5 else if r = - 4 then - 4 else 1)
                | _ \<Rightarrow> PyNone)
       \<and> calls (snd (encode_one_frame c_lib L self (PyBytes b))) =
           calls self @ [EncodeOneFrame]
       \<and> fst (encode_one_frame c_lib L self (PyBytes b)) =
           (sint (fst (api_encodeOneFrame c_lib (c_ffio_ptr self) (PyBytes b))) = 0)
       \<and> calls (snd (encode_one_frame c_lib L self (PyNDArray a))) =
           calls self @ [EncodeOneFrame]
       \<and> fst (encode_one_frame c_lib L self (PyNDArray a)) =
           (sint (fst (api_encodeOneFrame c_lib (c_ffio_ptr self) (PyBytes (tobytes L a)))) = 0)
       \<and> ((\<forall>b. rgb_image \<noteq> PyBytes b) \<and> (\<forall>a. rgb_image \<noteq> PyNDArray a) \<longrightarrow>
            encode_one_frame c_lib L self rgb_image = (False, self))"
proof -
  have "fst (decode_one_frame c_lib L self None) =
           Inr (case fst (api_decodeOneFrame c_lib (c_ffio_ptr self)) of
                  PyBytes b \<Rightarrow> PyBytes b
                | PyInt r \<Rightarrow> PyInt (if r = - 5 then - 5 else if r = - 4 then - 4 else 1)
                | _ \<Rightarrow> PyNone)"
    by (cases "api_decodeOneFrame c_lib (c_ffio_ptr self)")
      (simp add: decode_one_frame_def Let_def split: py_object.split)
  moreover have "(\<forall>b. rgb_image \<noteq> PyBytes b) \<and> (\<forall>a. rgb_image \<noteq> PyNDArray a) \<longrightarrow>
            encode_one_frame c_lib L self rgb_image = (False, self)"
    by (cases rgb_image) simp_all
  ultimately show ?thesis
    by (simp add: decode_one_frame_calls encode_one_frame_bytes_eq)
qed

theorem not_ready_still_calls_gateway_witness:
  "\<not> FFIO_ffio_state (run_gateway 0 (PyInt (- 5)) 7) (failed (PyInt (- 5)) 7)
   \<and> calls (snd (decode_one_frame (run_gateway 0 (PyInt (- 5)) 7) run_libs
        (failed (PyInt (- 5)) 7) (Some ''numpy''))) =
       [NewFFIO, InitFFIO, DeleteFFIO, DecodeOneFrame]
   \<and> fst (decode_one_frame (run_gateway 0 (PyInt (- 5)) 7) run_libs
        (failed (PyInt (- 5)) 7) None) = Inr (PyInt (- 5))
   \<and> calls (snd (encode_one_frame (run_gateway 0 (PyInt (- 5)) 7) run_libs
        (failed (PyInt (- 5)) 7) (PyBytes []))) =
       [NewFFIO, InitFFIO, DeleteFFIO, EncodeOneFrame]
   \<and> fst (encode_one_frame (run_gateway 0 (PyInt (- 5)) 7) run_libs
        (failed (PyInt (- 5)) 7) (PyBytes [])) = False
   \<and> calls (snd (encode_one_frame (run_gateway 0 (PyInt (- 5)) 7) run_libs
        (failed (PyInt (- 5)) 7) (PyNDArray ([1], [9])))) =
       [NewFFIO, InitFFIO, DeleteFFIO, EncodeOneFrame]
   \<and> fst (encode_one_frame (run_gateway 0 (PyInt (- 5)) 7) run_libs
        (failed (PyInt (- 5)) 7) (PyNDArray ([1], [9]))) = False
   \<and> (\<forall>b. (PyStr ''frame'' :: (run_array, run_image) py_object) \<noteq> PyBytes b)
   \<and> (\<forall>a. (PyStr ''frame'' :: (run_array, run_image) py_object) \<noteq> PyNDArray a)
   \<and> encode_one_frame (run_gateway 0 (PyInt (- 5)) 7) run_libs
        (failed (PyInt (- 5)) 7) (PyStr ''frame'') = (False, failed (PyInt (- 5)) 7)"
proof -
  have h: "\<not> FFIO_ffio_state (run_gateway 0 (PyInt (- 5)) 7) (failed (PyInt (- 5)) 7)"
    by (simp add: FFIO_ffio_state_def run_gateway_sel failed_eq CFFIO_zero_def)
  have n: "(\<forall>b. (PyStr ''frame'' :: (run_array, run_image) py_object) \<noteq> PyBytes b)
         \<and> (\<forall>a. (PyStr ''frame'' :: (run_array, run_image) py_object) \<noteq> PyNDArray a)"
    by simp
  from not_ready_still_calls_gateway
         [OF h, of run_libs "Some ''numpy''" "[]" "([1], [9])" "PyStr ''frame''"] h n
  show ?thesis
    by (simp add: run_gateway_sel failed_eq)
qed

section \<open>Results of \<open>decode_one_frame\<close>\<close>

text \<open>
  C3. When the library answers \<open>decode_one_frame\<close> with an integer, the method
  returns -5 exactly when the answer is -5, -4 exactly when it is -4, and 1 for
  every other integer; the local counter does not move.
\<close>

theorem decode_one_frame_integer_codes:
  assumes "fst (api_decodeOneFrame c_lib (c_ffio_ptr self)) = PyInt r"
  shows "(fst (decode_one_frame c_lib L self image_format) = Inr (PyInt (- 5)) \<longleftrightarrow> r = - 5)
       \<and> (fst (decode_one_frame c_lib L self image_format) = Inr (PyInt (- 4)) \<longleftrightarrow> r = - 4)
       \<and> (fst (decode_one_frame c_lib L self image_format) = Inr (PyInt 1)
            \<longleftrightarrow> r \<noteq> - 5 \<and> r \<noteq> - 4)
       \<and> frame_seq_py (snd (decode_one_frame c_lib L self image_format)) = frame_seq_py self"
  by (simp add: decode_one_frame_int [OF assms])

theorem decode_one_frame_integer_codes_witness:
  "fst (api_decodeOneFrame (run_gateway 1 (PyInt (- 5)) 0) (c_ffio_ptr (ready (PyInt (- 5)) 0)))
     = PyInt (- 5)
   \<and> fst (decode_one_frame (run_gateway 1 (PyInt (- 5)) 0) run_libs (ready (PyInt (- 5)) 0)
        (Some ''numpy'')) = Inr (PyInt (- 5))
   \<and> fst (decode_one_frame (run_gateway 1 (PyInt (- 5)) 0) run_libs (ready (PyInt (- 5)) 0)
        (Some ''numpy'')) \<noteq> Inr (PyInt (- 4))
   \<and> fst (decode_one_frame (run_gateway 1 (PyInt (- 5)) 0) run_libs (ready (PyInt (- 5)) 0)
        (Some ''numpy'')) \<noteq> Inr (PyInt 1)
   \<and> frame_seq_py (snd (decode_one_frame (run_gateway 1 (PyInt (- 5)) 0) run_libs
        (ready (PyInt (- 5)) 0) (Some ''numpy''))) = 0"
proof -
  have h: "fst (api_decodeOneFrame (run_gateway 1 (PyInt (- 5)) 0)
                 (c_ffio_ptr (ready (PyInt (- 5)) 0))) = PyInt (- 5)"
    by (simp add: run_gateway_sel)
  from decode_one_frame_integer_codes [OF h, of run_libs "Some ''numpy''"] h
  show ?thesis
    by (simp add: ready_eq)
qed

text \<open>
  C10. With a format string other than \<open>numpy\<close>, \<open>Image\<close> and \<open>base64\<close>, a frame
  delivered by the library is counted (\<open>frame_seq_py\<close> grows by one) and the call
  returns \<open>None\<close>.
\<close>

theorem decode_one_frame_unknown_format:
  assumes "fst (api_decodeOneFrame c_lib (c_ffio_ptr self)) = PyBytes b"
    and "fmt \<noteq> ''numpy''" and "fmt \<noteq> ''Image''" and "fmt \<noteq> ''base64''"
  shows "fst (decode_one_frame c_lib L self (Some fmt)) = Inr PyNone
       \<and> frame_seq_py (snd (decode_one_frame c_lib L self (Some fmt))) = frame_seq_py self + 1"
  using assms(2-4) by (simp add: decode_one_frame_bytes [OF assms(1)] Let_def)

theorem decode_one_frame_unknown_format_witness:
  "fst (api_decodeOneFrame (run_gateway 1 (PyBytes [1, 2, 3, 4, 5, 6]) 0)
         (c_ffio_ptr (ready (PyBytes [1, 2, 3, 4, 5, 6]) 0))) = PyBytes [1, 2, 3, 4, 5, 6]
   \<and> ''png'' \<noteq> ''numpy'' \<and> ''png'' \<noteq> ''Image'' \<and> ''png'' \<noteq> ''base64''
   \<and> fst (decode_one_frame (run_gateway 1 (PyBytes [1, 2, 3, 4, 5, 6]) 0) run_libs
        (ready (PyBytes [1, 2, 3, 4, 5, 6]) 0) (Some ''png'')) = Inr PyNone
   \<and> frame_seq_py (snd (decode_one_frame (run_gateway 1 (PyBytes [1, 2, 3, 4, 5, 6]) 0) run_libs
        (ready (PyBytes [1, 2, 3, 4, 5, 6]) 0) (Some ''png''))) = 1"
proof -
  have h: "fst (api_decodeOneFrame (run_gateway 1 (PyBytes [1, 2, 3, 4, 5, 6]) 0)
         (c_ffio_ptr (ready (PyBytes [1, 2, 3, 4, 5, 6]) 0))) = PyBytes [1, 2, 3, 4, 5, 6]"
    by (simp add: run_gateway_sel)
  have n: "''png'' \<noteq> ''numpy''" "''png'' \<noteq> ''Image''" "''png'' \<noteq> ''base64''"
    by simp_all
  from decode_one_frame_unknown_format [OF h n, of run_libs] h n
  show ?thesis
    by (simp add: ready_eq)
qed

text \<open>
  C9. When the library delivers a frame and the caller asks for \<open>base64\<close>, the
  outcome of the call is the outcome of this chain: the delivered bytes reshaped
  to \<open>(height, width, 3)\<close>, \<open>cvtColor\<close> with \<open>COLOR_RGB2BGR\<close>, \<open>imencode('.jpg', ...)\<close>
  on the reordered frame, \<open>b64encode\<close> of the compressed image, and the text of
  that. So the call returns that text whenever the library calls succeed, a
  returned value is always that text, and the frame is counted. No other format
  uses the conversion: their outcome is the same whatever \<open>cvtColor\<close> does.
\<close>

theorem decode_one_frame_base64:
  assumes "fst (api_decodeOneFrame c_lib (c_ffio_ptr self)) = PyBytes b"
  shows "fst (decode_one_frame c_lib L self (Some ''base64'')) =
           (case height self of None \<Rightarrow> Inl (AttributeError ''height'') | Some h \<Rightarrow>
           (case width self of None \<Rightarrow> Inl (AttributeError ''width'') | Some w \<Rightarrow>
           (case np_reshape L (np_frombuffer L b) (h, w, 3) of Inl e \<Rightarrow> Inl e | Inr np_frame \<Rightarrow>
           (case cv2_cvtColor L np_frame COLOR_RGB2BGR of Inl e \<Rightarrow> Inl e | Inr bgr_image \<Rightarrow>
           (case cv2_imencode L ''.jpg'' bgr_image of Inl e \<Rightarrow> Inl e | Inr enc \<Rightarrow>
           (case bytes_decode L (b64encode L (snd enc)) of Inl e \<Rightarrow> Inl e | Inr base64_image_code \<Rightarrow>
            Inr (PyStr base64_image_code)))))))
       \<and> (\<forall>h w np_frame bgr_image enc base64_image_code.
               height self = Some h \<and> width self = Some w
             \<and> np_reshape L (np_frombuffer L b) (h, w, 3) = Inr np_frame
             \<and> cv2_cvtColor L np_frame COLOR_RGB2BGR = Inr bgr_image
             \<and> cv2_imencode L ''.jpg'' bgr_image = Inr enc
             \<and> bytes_decode L (b64encode L (snd enc)) = Inr base64_image_code
             \<longrightarrow> fst (decode_one_frame c_lib L self (Some ''base64'')) = Inr (PyStr base64_image_code))
       \<and> (\<forall>v. fst (decode_one_frame c_lib L self (Some ''base64'')) = Inr v \<longrightarrow>
            (\<exists>h w np_frame bgr_image enc base64_image_code.
               height self = Some h \<and> width self = Some w
             \<and> np_reshape L (np_frombuffer L b) (h, w, 3) = Inr np_frame
             \<and> cv2_cvtColor L np_frame COLOR_RGB2BGR = Inr bgr_image
             \<and> cv2_imencode L ''.jpg'' bgr_image = Inr enc
             \<and> bytes_decode L (b64encode L (snd enc)) = Inr base64_image_code
             \<and> v = PyStr base64_image_code))
       \<and> frame_seq_py (snd (decode_one_frame c_lib L self (Some ''base64''))) =
           frame_seq_py self + 1
       \<and> (\<forall>image_format f. image_format \<noteq> Some ''base64'' \<longrightarrow>
            decode_one_frame c_lib (L\<lparr>cv2_cvtColor := f\<rparr>) self image_format =
            decode_one_frame c_lib L self image_format)"
proof -
  have eq: "fst (decode_one_frame c_lib L self (Some ''base64'')) =
           (case height self of None \<Rightarrow> Inl (AttributeError ''height'') | Some h \<Rightarrow>
           (case width self of None \<Rightarrow> Inl (AttributeError ''width'') | Some w \<Rightarrow>
           (case np_reshape L (np_frombuffer L b) (h, w, 3) of Inl e \<Rightarrow> Inl e | Inr np_frame \<Rightarrow>
           (case cv2_cvtColor L np_frame COLOR_RGB2BGR of Inl e \<Rightarrow> Inl e | Inr bgr_image \<Rightarrow>
           (case cv2_imencode L ''.jpg'' bgr_image of Inl e \<Rightarrow> Inl e | Inr enc \<Rightarrow>
           (case bytes_decode L (b64encode L (snd enc)) of Inl e \<Rightarrow> Inl e | Inr base64_image_code \<Rightarrow>
            Inr (PyStr base64_image_code)))))))"
    by (simp add: decode_one_frame_bytes [OF assms] Let_def bind_err_def getattr_def
        split: option.split sum.split)
  have conv: "fst (decode_one_frame c_lib L self (Some ''base64'')) = Inr (PyStr s)"
    if "height self = Some h" "width self = Some w"
      "np_reshape L (np_frombuffer L b) (h, w, 3) = Inr np_frame"
      "cv2_cvtColor L np_frame COLOR_RGB2BGR = Inr bgr_image"
      "cv2_imencode L ''.jpg'' bgr_image = Inr enc"
      "bytes_decode L (b64encode L (snd enc)) = Inr s"
    for h w np_frame bgr_image enc s
    using that by (simp add: eq)
  have fwd: "\<exists>h w np_frame bgr_image enc base64_image_code.
               height self = Some h \<and> width self = Some w
             \<and> np_reshape L (np_frombuffer L b) (h, w, 3) = Inr np_frame
             \<and> cv2_cvtColor L np_frame COLOR_RGB2BGR = Inr bgr_image
             \<and> cv2_imencode L ''.jpg'' bgr_image = Inr enc
             \<and> bytes_decode L (b64encode L (snd enc)) = Inr base64_image_code
             \<and> v = PyStr base64_image_code"
    if "fst (decode_one_frame c_lib L self (Some ''base64'')) = Inr v" for v
    using that by (auto simp add: eq split: option.splits sum.splits)
  have seq: "frame_seq_py (snd (decode_one_frame c_lib L self (Some ''base64''))) =
           frame_seq_py self + 1"
    by (rule decode_one_frame_bytes_seq [OF assms])
  have indep: "decode_one_frame c_lib (L\<lparr>cv2_cvtColor := f\<rparr>) self image_format =
            decode_one_frame c_lib L self image_format"
    if "image_format \<noteq> Some ''base64''" for image_format f
    using that by (simp add: decode_one_frame_bytes [OF assms] Let_def)
  show ?thesis
  proof (intro conjI allI impI)
    show "fst (decode_one_frame c_lib L self (Some ''base64'')) =
           (case height self of None \<Rightarrow> Inl (AttributeError ''height'') | Some h \<Rightarrow>
           (case width self of None \<Rightarrow> Inl (AttributeError ''width'') | Some w \<Rightarrow>
           (case np_reshape L (np_frombuffer L b) (h, w, 3) of Inl e \<Rightarrow> Inl e | Inr np_frame \<Rightarrow>
           (case cv2_cvtColor L np_frame COLOR_RGB2BGR of Inl e \<Rightarrow> Inl e | Inr bgr_image \<Rightarrow>
           (case cv2_imencode L ''.jpg'' bgr_image of Inl e \<Rightarrow> Inl e | Inr enc \<Rightarrow>
           (case bytes_decode L (b64encode L (snd enc)) of Inl e \<Rightarrow> Inl e | Inr base64_image_code \<Rightarrow>
            Inr (PyStr base64_image_code)))))))"
      by (rule eq)
  next
    fix h w np_frame bgr_image enc s
    assume "height self = Some h \<and> width self = Some w
             \<and> np_reshape L (np_frombuffer L b) (h, w, 3) = Inr np_frame
             \<and> cv2_cvtColor L np_frame COLOR_RGB2BGR = Inr bgr_image
             \<and> cv2_imencode L ''.jpg'' bgr_image = Inr enc
             \<and> bytes_decode L (b64encode L (snd enc)) = Inr s"
    then show "fst (decode_one_frame c_lib L self (Some ''base64'')) = Inr (PyStr s)"
      by (simp add: conv)
  next
    fix v
    assume "fst (decode_one_frame c_lib L self (Some ''base64'')) = Inr v"
    then show "\<exists>h w np_frame bgr_image enc base64_image_code.
               height self = Some h \<and> width self = Some w
             \<and> np_reshape L (np_frombuffer L b) (h, w, 3) = Inr np_frame
             \<and> cv2_cvtColor L np_frame COLOR_RGB2BGR = Inr bgr_image
             \<and> cv2_imencode L ''.jpg'' bgr_image = Inr enc
             \<and> bytes_decode L (b64encode L (snd enc)) = Inr base64_image_code
             \<and> v = PyStr base64_image_code"
      by (rule fwd)
  next
    show "frame_seq_py (snd (decode_one_frame c_lib L self (Some ''base64''))) =
           frame_seq_py self + 1"
      by (rule seq)
  next
    fix image_format f
    assume "image_format \<noteq> Some ''base64''"
    then show "decode_one_frame c_lib (L\<lparr>cv2_cvtColor := f\<rparr>) self image_format =
            decode_one_frame c_lib L self image_format"
      by (rule indep)
  qed
qed

theorem decode_one_frame_base64_witness:
  "fst (api_decodeOneFrame (run_gateway 1 (PyBytes [65, 66, 67, 68, 69, 70]) 0)
         (c_ffio_ptr (ready (PyBytes [65, 66, 67, 68, 69, 70]) 0)))
     = PyBytes [65, 66, 67, 68, 69, 70]
   \<and> height (ready (PyBytes [65, 66, 67, 68, 69, 70]) 0) = Some 1
   \<and> width (ready (PyBytes [65, 66, 67, 68, 69, 70]) 0) = Some 2
   \<and> np_reshape run_libs (np_frombuffer run_libs [65, 66, 67, 68, 69, 70]) (1, 2, 3)
       = Inr ([1, 2, 3], [65, 66, 67, 68, 69, 70])
   \<and> cv2_cvtColor run_libs ([1, 2, 3], [65, 66, 67, 68, 69, 70]) COLOR_RGB2BGR
       = Inr ([1, 2, 3], [67, 66, 65, 70, 69, 68])
   \<and> cv2_imencode run_libs ''.jpg'' ([1, 2, 3], [67, 66, 65, 70, 69, 68])
       = Inr (True, ([6], [67, 66, 65, 70, 69, 68]))
   \<and> bytes_decode run_libs (b64encode run_libs (snd (True, ([6], [67, 66, 65, 70, 69, 68]))))
       = Inr ''CBAFED''
   \<and> fst (decode_one_frame (run_gateway 1 (PyBytes [65, 66, 67, 68, 69, 70]) 0) run_libs
        (ready (PyBytes [65, 66, 67, 68, 69, 70]) 0) (Some ''base64'')) = Inr (PyStr ''CBAFED'')
   \<and> frame_seq_py (snd (decode_one_frame (run_gateway 1 (PyBytes [65, 66, 67, 68, 69, 70]) 0)
        run_libs (ready (PyBytes [65, 66, 67, 68, 69, 70]) 0) (Some ''base64''))) = 1
   \<and> Some ''numpy'' \<noteq> Some ''base64''
   \<and> decode_one_frame (run_gateway 1 (PyBytes [65, 66, 67, 68, 69, 70]) 0)
        (run_libs\<lparr>cv2_cvtColor := \<lambda>a code. Inl Cv2Error\<rparr>)
        (ready (PyBytes [65, 66, 67, 68, 69, 70]) 0) (Some ''numpy'') =
      decode_one_frame (run_gateway 1 (PyBytes [65, 66, 67, 68, 69, 70]) 0) run_libs
        (ready (PyBytes [65, 66, 67, 68, 69, 70]) 0) (Some ''numpy'')"
proof -
  have h: "fst (api_decodeOneFrame (run_gateway 1 (PyBytes [65, 66, 67, 68, 69, 70]) 0)
         (c_ffio_ptr (ready (PyBytes [65, 66, 67, 68, 69, 70]) 0)))
     = PyBytes [65, 66, 67, 68, 69, 70]"
    by (simp add: run_gateway_sel)
  have g: "height (ready (PyBytes [65, 66, 67, 68, 69, 70]) 0) = Some 1"
    "width (ready (PyBytes [65, 66, 67, 68, 69, 70]) 0) = Some 2"
    by (simp_all add: ready_eq)
  have l1: "np_reshape run_libs (np_frombuffer run_libs [65, 66, 67, 68, 69, 70]) (1, 2, 3)
       = Inr ([1, 2, 3], [65, 66, 67, 68, 69, 70])"
    by (simp add: run_libs_def)
  have l2: "cv2_cvtColor run_libs ([1, 2, 3], [65, 66, 67, 68, 69, 70]) COLOR_RGB2BGR
       = Inr ([1, 2, 3], [67, 66, 65, 70, 69, 68])"
    by (simp add: run_libs_def)
  have l3: "cv2_imencode run_libs ''.jpg'' ([1, 2, 3], [67, 66, 65, 70, 69, 68])
       = Inr (True, ([6], [67, 66, 65, 70, 69, 68]))"
    by (simp add: run_libs_def)
  have l4: "bytes_decode run_libs
         (b64encode run_libs (snd (True, ([6], [67, 66, 65, 70, 69, 68])))) = Inr ''CBAFED''"
    by (simp add: run_libs_def char_of_def bit_Suc_0_iff)
  have n: "Some ''numpy'' \<noteq> Some ''base64''"
    by simp
  note t = decode_one_frame_base64 [OF h, of run_libs]
  note c = t [THEN conjunct2, THEN conjunct1, rule_format]
  have v: "fst (decode_one_frame (run_gateway 1 (PyBytes [65, 66, 67, 68, 69, 70]) 0) run_libs
        (ready (PyBytes [65, 66, 67, 68, 69, 70]) 0) (Some ''base64'')) = Inr (PyStr ''CBAFED'')"
    by (rule c) (rule conjI g l1 l2 l3 l4)+
  note s = t [THEN conjunct2, THEN conjunct2, THEN conjunct2, THEN conjunct1]
  note i = t [THEN conjunct2, THEN conjunct2, THEN conjunct2, THEN conjunct2, rule_format, OF n]
  have z: "frame_seq_py (ready (PyBytes [65, 66, 67, 68, 69, 70]) 0) = 0"
    by (simp add: ready_eq)
  from h g l1 l2 l3 l4 v n show ?thesis
    by (simp add: s z i)
qed

section \<open>Results of \<open>encode_one_frame\<close>\<close>

text \<open>
  C4. On bytes, \<open>encode_one_frame\<close> returns \<open>True\<close> and adds one to \<open>frame_seq_py\<close>
  when the library returns code 0; for every other code it returns \<open>False\<close> and
  leaves \<open>frame_seq_py\<close> as it was.
\<close>

theorem encode_one_frame_bytes_result:
  "(sint (fst (api_encodeOneFrame c_lib (c_ffio_ptr self) (PyBytes b))) = 0 \<longrightarrow>
      fst (encode_one_frame c_lib L self (PyBytes b)) = True
    \<and> frame_seq_py (snd (encode_one_frame c_lib L self (PyBytes b))) = frame_seq_py self + 1)
   \<and> (sint (fst (api_encodeOneFrame c_lib (c_ffio_ptr self) (PyBytes b))) \<noteq> 0 \<longrightarrow>
      fst (encode_one_frame c_lib L self (PyBytes b)) = False
    \<and> frame_seq_py (snd (encode_one_frame c_lib L self (PyBytes b))) = frame_seq_py self)"
  by (simp add: encode_one_frame_bytes_eq)

theorem encode_one_frame_bytes_result_witness:
  "sint (fst (api_encodeOneFrame (run_gateway 1 PyNone 0) (c_ffio_ptr (ready PyNone 0))
       (PyBytes [1, 2, 3, 4, 5, 6]))) = 0
   \<and> fst (encode_one_frame (run_gateway 1 PyNone 0) run_libs (ready PyNone 0)
        (PyBytes [1, 2, 3, 4, 5, 6])) = True
   \<and> frame_seq_py (snd (encode_one_frame (run_gateway 1 PyNone 0) run_libs (ready PyNone 0)
        (PyBytes [1, 2, 3, 4, 5, 6]))) = 1
   \<and> sint (fst (api_encodeOneFrame (run_gateway 1 PyNone (- 1)) (c_ffio_ptr (ready PyNone (- 1)))
       (PyBytes [1, 2, 3, 4, 5, 6]))) \<noteq> 0
   \<and> fst (encode_one_frame (run_gateway 1 PyNone (- 1)) run_libs (ready PyNone (- 1))
        (PyBytes [1, 2, 3, 4, 5, 6])) = False
   \<and> frame_seq_py (snd (encode_one_frame (run_gateway 1 PyNone (- 1)) run_libs
        (ready PyNone (- 1)) (PyBytes [1, 2, 3, 4, 5, 6]))) = 0"
proof -
  have h0: "sint (fst (api_encodeOneFrame (run_gateway 1 PyNone 0) (c_ffio_ptr (ready PyNone 0))
       (PyBytes [1, 2, 3, 4, 5, 6]))) = 0"
    by (simp add: run_gateway_sel)
  have h1: "sint (fst (api_encodeOneFrame (run_gateway 1 PyNone (- 1))
       (c_ffio_ptr (ready PyNone (- 1))) (PyBytes [1, 2, 3, 4, 5, 6]))) \<noteq> 0"
    by (simp add: run_gateway_sel)
  from encode_one_frame_bytes_result
         [of "run_gateway 1 PyNone 0" "ready PyNone 0" "[1, 2, 3, 4, 5, 6]" run_libs]
       encode_one_frame_bytes_result
         [of "run_gateway 1 PyNone (- 1)" "ready PyNone (- 1)" "[1, 2, 3, 4, 5, 6]" run_libs]
       h0 h1
  show ?thesis
    by (simp add: ready_eq)
qed

text \<open>
  C5, as the specification states it: an input whose length is not
  \<open>width * height * 3\<close> is rejected with \<open>False\<close> before the native encode. On a
  2x1 session (6 bytes per frame) the empty byte string and a one-byte array are
  both passed to the library, and the call returns \<open>True\<close> when the library
  accepts them.
\<close>

theorem encode_wrong_length_counterexample:
  "width (ready PyNone 0) = Some 2 \<and> height (ready PyNone 0) = Some 1
   \<and> int (length ([] :: bytes)) \<noteq> 2 * 1 * 3
   \<and> encode_one_frame (run_gateway 1 PyNone 0) run_libs (ready PyNone 0) (PyBytes []) =
       (True, (ready PyNone 0)
          \<lparr>c_ffio_ptr := (c_ffio_ptr (ready PyNone 0))\<lparr>frame_seq := 1\<rparr>,
           calls := [NewFFIO, InitFFIO, EncodeOneFrame], frame_seq_py := 1\<rparr>)
   \<and> int (length (tobytes run_libs ([1], [9]))) \<noteq> 2 * 1 * 3
   \<and> encode_one_frame (run_gateway 1 PyNone 0) run_libs (ready PyNone 0)
        (PyNDArray ([1], [9])) =
       (True, (ready PyNone 0)
          \<lparr>c_ffio_ptr := (c_ffio_ptr (ready PyNone 0))\<lparr>frame_seq := 1\<rparr>,
           calls := [NewFFIO, InitFFIO, EncodeOneFrame], frame_seq_py := 1\<rparr>)"
  by (simp add: encode_one_frame_bytes_eq run_gateway_sel ready_eq run_libs_def
      CFFIO_zero_def)

text \<open>
  C5, amended: \<open>encode_one_frame\<close> does not look at the length or the layout of
  its input. Bytes of any length go to the native encode, exactly once, and the
  result is whether the library returned 0; an array is serialised with
  \<open>tobytes()\<close> and treated as those bytes; only an input that is neither bytes nor
  an array is rejected with \<open>False\<close> without a native call.
\<close>

theorem encode_one_frame_no_length_check:
  "fst (encode_one_frame c_lib L self (PyBytes b)) =
     (sint (fst (api_encodeOneFrame c_lib (c_ffio_ptr self) (PyBytes b))) = 0)
   \<and> calls (snd (encode_one_frame c_lib L self (PyBytes b))) = calls self @ [EncodeOneFrame]
   \<and> encode_one_frame c_lib L self (PyNDArray a) =
       encode_one_frame c_lib L self (PyBytes (tobytes L a))
   \<and> ((\<forall>b. rgb_image \<noteq> PyBytes b) \<and> (\<forall>a. rgb_image \<noteq> PyNDArray a) \<longrightarrow>
        encode_one_frame c_lib L self rgb_image = (False, self))"
  by (cases rgb_image) (simp_all add: encode_one_frame_bytes_eq)

theorem encode_one_frame_no_length_check_witness:
  "fst (encode_one_frame (run_gateway 1 PyNone 0) run_libs (ready PyNone 0) (PyBytes [7])) = True
   \<and> calls (snd (encode_one_frame (run_gateway 1 PyNone 0) run_libs (ready PyNone 0)
        (PyBytes [7]))) = [NewFFIO, InitFFIO, EncodeOneFrame]
   \<and> encode_one_frame (run_gateway 1 PyNone 0) run_libs (ready PyNone 0)
        (PyNDArray ([1], [7])) =
      encode_one_frame (run_gateway 1 PyNone 0) run_libs (ready PyNone 0) (PyBytes [7])
   \<and> (\<forall>b. (PyStr ''frame'' :: (run_array, run_image) py_object) \<noteq> PyBytes b)
   \<and> (\<forall>a. (PyStr ''frame'' :: (run_array, run_image) py_object) \<noteq> PyNDArray a)
   \<and> encode_one_frame (run_gateway 1 PyNone 0) run_libs (ready PyNone 0) (PyStr ''frame'') =
       (False, ready PyNone 0)"
proof -
  have h: "(\<forall>b. (PyStr ''frame'' :: (run_array, run_image) py_object) \<noteq> PyBytes b)
         \<and> (\<forall>a. (PyStr ''frame'' :: (run_array, run_image) py_object) \<noteq> PyNDArray a)"
    by simp
  have t: "tobytes run_libs ([1], [7]) = [7]"
    by (simp add: run_libs_def)
  from encode_one_frame_no_length_check
         [of "run_gateway 1 PyNone 0" run_libs "ready PyNone 0" "[7]" "([1], [7])"
             "PyStr ''frame''"] h t
  show ?thesis
    by (simp add: run_gateway_sel ready_eq)
qed

section \<open>Construction and release\<close>

text \<open>
  C7. \<open>release_memory\<close> leaves \<open>width\<close>, \<open>height\<close> and \<open>frame_seq_py\<close> at zero and
  does not change \<open>target_url\<close>, \<open>mode\<close>, \<open>shm_enabled\<close> or \<open>codec_params\<close>.
\<close>

theorem release_memory_resets:
  "width (release_memory c_lib self) = Some 0
   \<and> height (release_memory c_lib self) = Some 0
   \<and> frame_seq_py (release_memory c_lib self) = 0
   \<and> target_url (release_memory c_lib self) = target_url self
   \<and> mode (release_memory c_lib self) = mode self
   \<and> FFIO.shm_enabled (release_memory c_lib self) = FFIO.shm_enabled self
   \<and> codec_params (release_memory c_lib self) = codec_params self"
  by (simp add: release_memory_def Let_def)

text \<open>
  C6, as the specification states it: a second \<open>release_memory\<close> does not free the
  native handle again. The run below releases a ready session twice: the second
  call hands the same pointer to \<open>api_finalizeFFIO\<close> and to \<open>api_deleteFFIO\<close>
  again, so the handle is deleted twice.
\<close>

theorem release_memory_twice_counterexample:
  "calls (release_memory (run_gateway 1 PyNone 0) (ready PyNone 0)) =
     [NewFFIO, InitFFIO, FinalizeFFIO, DeleteFFIO]
   \<and> calls (release_memory (run_gateway 1 PyNone 0)
       (release_memory (run_gateway 1 PyNone 0) (ready PyNone 0))) =
     [NewFFIO, InitFFIO, FinalizeFFIO, DeleteFFIO, FinalizeFFIO, DeleteFFIO]
   \<and> count_list (calls (release_memory (run_gateway 1 PyNone 0)
       (release_memory (run_gateway 1 PyNone 0) (ready PyNone 0)))) DeleteFFIO = 2"
  by (simp add: release_memory_def run_gateway_sel ready_eq)

text \<open>
  C6, amended: after a second \<open>release_memory\<close> every attribute of the session
  is as the first call left it: \<open>width\<close>, \<open>height\<close> and \<open>frame_seq_py\<close> are zero
  after the first call and after the second, and \<open>target_url\<close>, \<open>mode\<close>,
  \<open>shm_enabled\<close> and \<open>codec_params\<close> are untouched by both, so the counters are not
  corrupted. The wrapper has no guard of its own against a second release: each
  call passes the pointer to \<open>api_finalizeFFIO\<close> and then to \<open>api_deleteFFIO\<close>.
\<close>

theorem release_memory_twice:
  "width (release_memory c_lib self) = Some 0
   \<and> height (release_memory c_lib self) = Some 0
   \<and> frame_seq_py (release_memory c_lib self) = 0
   \<and> width (release_memory c_lib (release_memory c_lib self)) = Some 0
   \<and> height (release_memory c_lib (release_memory c_lib self)) = Some 0
   \<and> frame_seq_py (release_memory c_lib (release_memory c_lib self)) = 0
   \<and> target_url (release_memory c_lib (release_memory c_lib self)) = target_url self
   \<and> target_url (release_memory c_lib self) = target_url self
   \<and> mode (release_memory c_lib (release_memory c_lib self)) = mode self
   \<and> mode (release_memory c_lib self) = mode self
   \<and> FFIO.shm_enabled (release_memory c_lib (release_memory c_lib self)) =
       FFIO.shm_enabled self
   \<and> FFIO.shm_enabled (release_memory c_lib self) = FFIO.shm_enabled self
   \<and> codec_params (release_memory c_lib (release_memory c_lib self)) = codec_params self
   \<and> codec_params (release_memory c_lib self) = codec_params self
   \<and> calls (release_memory c_lib self) = calls self @ [FinalizeFFIO, DeleteFFIO]
   \<and> calls (release_memory c_lib (release_memory c_lib self)) =
       calls self @ [FinalizeFFIO, DeleteFFIO, FinalizeFFIO, DeleteFFIO]
   \<and> c_ffio_ptr (release_memory c_lib self) =
       api_deleteFFIO c_lib (api_finalizeFFIO c_lib (c_ffio_ptr self))
   \<and> c_ffio_ptr (release_memory c_lib (release_memory c_lib self)) =
       api_deleteFFIO c_lib (api_finalizeFFIO c_lib
         (api_deleteFFIO c_lib (api_finalizeFFIO c_lib (c_ffio_ptr self))))"
  by (simp add: release_memory_def Let_def)

text \<open>
  C8. When initialisation does not succeed, \<open>width\<close> and \<open>height\<close> should be zero
  and the native handle released. The run below is a construction on a library
  that leaves \<open>ffio_state = 0\<close>: the handle is deleted, and \<open>width\<close> and \<open>height\<close>
  are never assigned.
\<close>

theorem failed_init_leaves_geometry_unset:
  "sint (ffio_state (contents (run_gateway 0 PyNone 0) (c_ffio_ptr (failed PyNone 0)))) \<noteq> 1
   \<and> width (failed PyNone 0) = None
   \<and> height (failed PyNone 0) = None
   \<and> width (failed PyNone 0) \<noteq> Some 0
   \<and> calls (failed PyNone 0) = [NewFFIO, InitFFIO, DeleteFFIO]
   \<and> width (release_memory (run_gateway 0 PyNone 0) (failed PyNone 0)) = Some 0"
  by (simp add: failed_eq run_gateway_sel release_memory_def CFFIO_zero_def)

end
